theory Spec2Isabelle
  imports Main
begin

section \<open>The serverless handler of module 6\<close>

subsection \<open>Python values\<close>

text \<open>
  The values the handler sees are those \<^verbatim>\<open>json.loads\<close> produces: \<^verbatim>\<open>None\<close>, booleans,
  integers, floats, strings, lists and dictionaries with string keys. The handler never computes
  with a float, so the representation of floats is left open as the type parameter \<open>'f\<close>.
  A dictionary is an association list in which every key occurs once.
\<close>

datatype 'f pyval =
    PNone
  | PBool bool
  | PInt int
  | PFloat 'f
  | PStr string
  | PList "'f pyval list"
  | PDict "(string \<times> 'f pyval) list"

text \<open>The exceptions that can leave the handler.\<close>

datatype error =
    KeyError
  | TypeError
  | IndexError
  | ClientError string
  | JSONDecodeError

text \<open>A subscript is a string (\<^verbatim>\<open>x['score']\<close>) or an integer (\<^verbatim>\<open>x[0]\<close>).\<close>

datatype key = KStr string | KInt int

text \<open>
  Python's sequence indexing: a negative index counts from the end, and an index outside the
  sequence raises \<^verbatim>\<open>IndexError\<close>.
\<close>

definition seq_index :: "'a list \<Rightarrow> int \<Rightarrow> error + 'a" where
  "seq_index xs i =
     (if 0 \<le> i \<and> i < int (length xs) then Inr (xs ! nat i)
      else if i < 0 \<and> - int (length xs) \<le> i then Inr (xs ! nat (int (length xs) + i))
      else Inl IndexError)"

text \<open>
  \<^verbatim>\<open>x[k]\<close>. A dictionary raises \<^verbatim>\<open>KeyError\<close> on a missing key (an integer is never a key
  of a dictionary parsed from JSON); a list or a string subscripted by a string raises
  \<^verbatim>\<open>TypeError\<close>; a string subscripted by an integer gives the one-character string at that
  place; \<^verbatim>\<open>None\<close>, booleans and numbers are not subscriptable.
\<close>

fun getitem :: "'f pyval \<Rightarrow> key \<Rightarrow> error + 'f pyval" where
  "getitem (PDict kvs) (KStr k) =
     (case map_of kvs k of None \<Rightarrow> Inl KeyError | Some v \<Rightarrow> Inr v)"
| "getitem (PDict kvs) (KInt i) = Inl KeyError"
| "getitem (PList xs) (KInt i) = seq_index xs i"
| "getitem (PList xs) (KStr k) = Inl TypeError"
| "getitem (PStr s) (KInt i) =
     (case seq_index s i of Inl e \<Rightarrow> Inl e | Inr c \<Rightarrow> Inr (PStr [c]))"
| "getitem (PStr s) (KStr k) = Inl TypeError"
| "getitem PNone k = Inl TypeError"
| "getitem (PBool b) k = Inl TypeError"
| "getitem (PInt n) k = Inl TypeError"
| "getitem (PFloat x) k = Inl TypeError"

subsection \<open>The response and the endpoint\<close>

text \<open>The dictionary \<^verbatim>\<open>build_response\<close> returns.\<close>

record response =
  statusCode :: int
  body :: string
  headers :: "(string \<times> string) list"

text \<open>The keyword arguments of \<^verbatim>\<open>runtime.invoke_endpoint\<close>.\<close>

record 'f invocation =
  EndpointName :: string
  ContentType :: string
  Body :: "'f pyval"

text \<open>
  What the handler calls and does not define. \<open>invoke_endpoint\<close> stands for
  \<^verbatim>\<open>runtime.invoke_endpoint(...)\<close> followed by \<^verbatim>\<open>response['Body'].read().decode()\<close>: it gives
  the text of the reply, or the exception the client raised. \<open>json_loads\<close> is \<^verbatim>\<open>json.loads\<close>
  and \<open>py_str\<close> is \<^verbatim>\<open>str\<close>.
\<close>

record 'f runtime =
  invoke_endpoint :: "'f invocation \<Rightarrow> error + string"
  json_loads :: "string \<Rightarrow> error + 'f pyval"
  py_str :: "'f pyval \<Rightarrow> string"

definition ENDPOINT_NAME :: string where
  "ENDPOINT_NAME = ''end-to-end-ml-sm-pipeline-endpoint-XXXXXXXXXX''"

definition cors_headers :: "(string \<times> string) list" where
  "cors_headers =
     [(''Content-Type'', ''application/json''),
      (''Access-Control-Allow-Origin'', ''*''),
      (''Access-Control-Allow-Credentials'', ''true''),
      (''Access-Control-Allow-Headers'', ''*'')]"

subsection \<open>The handler\<close>

text \<open>
  \<^verbatim>\<open>build_response(status_code, response_body)\<close>. The two \<^verbatim>\<open>print\<close> calls write to the log
  and cannot raise; they are left out. The body of the response is
  \<^verbatim>\<open>str(response_body['predictions'][0]['score'])\<close>, whose three subscripts are evaluated
  from left to right, each of them able to raise.
\<close>

definition build_response :: "('f pyval \<Rightarrow> string) \<Rightarrow> int \<Rightarrow> 'f pyval \<Rightarrow> error + response" where
  "build_response str status_code response_body =
     (case getitem response_body (KStr ''predictions'') of
        Inl e \<Rightarrow> Inl e
      | Inr predictions \<Rightarrow>
          (case getitem predictions (KInt 0) of
             Inl e \<Rightarrow> Inl e
           | Inr first \<Rightarrow>
               (case getitem first (KStr ''score'') of
                  Inl e \<Rightarrow> Inl e
                | Inr score \<Rightarrow>
                    Inr \<lparr>statusCode = status_code, body = str score,
                         headers = cors_headers\<rparr>)))"

text \<open>A function that ends in \<^verbatim>\<open>return build_response(...)\<close>: the dictionary, or the exception.\<close>

definition returning :: "error + response \<Rightarrow> error + response option" where
  "returning r = (case r of Inl e \<Rightarrow> Inl e | Inr d \<Rightarrow> Inr (Some d))"

text \<open>
  \<^verbatim>\<open>lambda_handler(event, context)\<close>. The event is a dictionary; \<open>context\<close> is not used.
  The result is the list of calls made to the endpoint together with what the handler returns:
  \<open>Inr (Some d)\<close> for a dictionary, \<open>Inr None\<close> for Python's \<^verbatim>\<open>None\<close> (the function falls
  off its end when the outer \<^verbatim>\<open>if\<close> fails), \<open>Inl e\<close> for an exception.
  \<^verbatim>\<open>event['httpMethod']\<close> and \<^verbatim>\<open>event['body']\<close> raise \<^verbatim>\<open>KeyError\<close> on a missing key.
\<close>

definition lambda_handler ::
  "'f runtime \<Rightarrow> (string \<rightharpoonup> 'f pyval) \<Rightarrow> 'f invocation list \<times> (error + response option)" where
  "lambda_handler rt event =
     (if event ''requestContext'' \<noteq> None then
        (case event ''httpMethod'' of
           None \<Rightarrow> ([], Inl KeyError)
         | Some httpMethod \<Rightarrow>
             if httpMethod = PStr ''OPTIONS'' then
               ([], returning (build_response (py_str rt) 200 (PStr '''')))
             else if httpMethod = PStr ''POST'' then
               (case event ''body'' of
                  None \<Rightarrow> ([], Inl KeyError)
                | Some turbine_data \<Rightarrow>
                    let call = \<lparr>EndpointName = ENDPOINT_NAME, ContentType = ''text/csv'',
                                Body = turbine_data\<rparr>
                    in (case invoke_endpoint rt call of
                          Inl e \<Rightarrow> ([call], Inl e)
                        | Inr reply \<Rightarrow>
                            (case json_loads rt reply of
                               Inl e \<Rightarrow> ([call], Inl e)
                             | Inr result \<Rightarrow>
                                 ([call], returning (build_response (py_str rt) 200 result)))))
             else
               ([], returning (build_response (py_str rt) 405 (PStr ''null''))))
      else ([], Inr None))"

section \<open>The networking templates\<close>

subsection \<open>Template values\<close>

text \<open>
  A value of a template: a scalar, one of the intrinsic functions the two templates use
  (\<^verbatim>\<open>Ref\<close>, \<^verbatim>\<open>Fn::Sub\<close>, \<^verbatim>\<open>Fn::GetAtt\<close>, \<^verbatim>\<open>Fn::GetAZs\<close>, \<^verbatim>\<open>Fn::Select\<close>), a sequence or
  a mapping.
\<close>

datatype cfn =
    Str string
  | Bool bool
  | Num int
  | Ref string
  | Sub string
  | GetAtt string
  | GetAZs cfn
  | Select "cfn list"
  | Seq "cfn list"
  | Mapping "(string \<times> cfn) list"

record resource =
  LogicalId :: string
  ResourceType :: string
  DependsOn :: "string option"
  Properties :: "(string \<times> cfn) list"

record stack_output =
  OutputId :: string
  OutputValue :: cfn
  ExportName :: cfn

record template =
  Description :: string
  Resources :: "resource list"
  Outputs :: "stack_output list"

text \<open>The \<^verbatim>\<open>Tags\<close> property every tagged resource carries: one tag, with key \<^verbatim>\<open>Name\<close>.\<close>

definition name_tag :: "cfn \<Rightarrow> string \<times> cfn" where
  "name_tag v = (''Tags'', Seq [Mapping [(''Key'', Str ''Name''), (''Value'', v)]])"

text \<open>The availability zone of a subnet: the \<open>n\<close>-th zone of the region.\<close>

definition nth_zone :: "int \<Rightarrow> string \<times> cfn" where
  "nth_zone n = (''AvailabilityZone'', Select [Num n, GetAZs (Ref ''AWS::Region'')])"

subsection \<open>\<^verbatim>\<open>setup/vpc_mode/01_networking.yaml\<close>\<close>

definition vpc_mode :: template where
  "vpc_mode =
    \<lparr>Description = ''VPC Mode - Provision the networking resources to be used by the Amazon SageMaker Studio domain.'',
     Resources =
      [\<lparr>LogicalId = ''SageMakerVPC'', ResourceType = ''AWS::EC2::VPC'', DependsOn = None,
         Properties =
          [(''CidrBlock'', Str ''10.0.0.0/16''),
           (''EnableDnsSupport'', Bool True),
           (''EnableDnsHostnames'', Bool True),
           name_tag (Sub ''${AWS::StackName}-vpc'')]\<rparr>,
       \<lparr>LogicalId = ''SageMakerInternetGateway'', ResourceType = ''AWS::EC2::InternetGateway'',
         DependsOn = None,
         Properties = [name_tag (Sub ''${AWS::StackName}-igw'')]\<rparr>,
       \<lparr>LogicalId = ''SageMakerIGWAttachment'', ResourceType = ''AWS::EC2::VPCGatewayAttachment'',
         DependsOn = None,
         Properties =
          [(''InternetGatewayId'', Ref ''SageMakerInternetGateway''),
           (''VpcId'', Ref ''SageMakerVPC'')]\<rparr>,
       \<lparr>LogicalId = ''SageMakerPrivateSubnet1'', ResourceType = ''AWS::EC2::Subnet'',
         DependsOn = None,
         Properties =
          [(''VpcId'', Ref ''SageMakerVPC''),
           (''CidrBlock'', Str ''10.0.0.0/24''),
           nth_zone 0,
           name_tag (Sub ''${AWS::StackName}-private-subnet1'')]\<rparr>,
       \<lparr>LogicalId = ''SageMakerPrivateSubnet2'', ResourceType = ''AWS::EC2::Subnet'',
         DependsOn = None,
         Properties =
          [(''VpcId'', Ref ''SageMakerVPC''),
           (''CidrBlock'', Str ''10.0.1.0/24''),
           nth_zone 1,
           name_tag (Sub ''${AWS::StackName}-private-subnet2'')]\<rparr>,
       \<lparr>LogicalId = ''SageMakerPrivateRouteTable'', ResourceType = ''AWS::EC2::RouteTable'',
         DependsOn = None,
         Properties =
          [(''VpcId'', Ref ''SageMakerVPC''),
           name_tag (Sub ''${AWS::StackName}-private-routetable'')]\<rparr>,
       \<lparr>LogicalId = ''SageMakerPrivateRoute'', ResourceType = ''AWS::EC2::Route'',
         DependsOn = None,
         Properties =
          [(''RouteTableId'', Ref ''SageMakerPrivateRouteTable''),
           (''DestinationCidrBlock'', Str ''0.0.0.0/0''),
           (''NatGatewayId'', Ref ''SageMakerNATGateway'')]\<rparr>,
       \<lparr>LogicalId = ''SageMakerPrivateSubnet1RouteTableAssociation'',
         ResourceType = ''AWS::EC2::SubnetRouteTableAssociation'', DependsOn = None,
         Properties =
          [(''SubnetId'', Ref ''SageMakerPrivateSubnet1''),
           (''RouteTableId'', Ref ''SageMakerPrivateRouteTable'')]\<rparr>,
       \<lparr>LogicalId = ''SageMakerPrivateSubnet2RouteTableAssociation'',
         ResourceType = ''AWS::EC2::SubnetRouteTableAssociation'', DependsOn = None,
         Properties =
          [(''SubnetId'', Ref ''SageMakerPrivateSubnet2''),
           (''RouteTableId'', Ref ''SageMakerPrivateRouteTable'')]\<rparr>,
       \<lparr>LogicalId = ''SageMakerPublicSubnet1'', ResourceType = ''AWS::EC2::Subnet'',
         DependsOn = None,
         Properties =
          [(''VpcId'', Ref ''SageMakerVPC''),
           (''CidrBlock'', Str ''10.0.2.0/24''),
           nth_zone 0,
           name_tag (Sub ''${AWS::StackName}-public-subnet1'')]\<rparr>,
       \<lparr>LogicalId = ''SageMakerPublicRouteTable'', ResourceType = ''AWS::EC2::RouteTable'',
         DependsOn = None,
         Properties =
          [(''VpcId'', Ref ''SageMakerVPC''),
           name_tag (Sub ''${AWS::StackName}-public-routetable'')]\<rparr>,
       \<lparr>LogicalId = ''SageMakerPublicRoute'', ResourceType = ''AWS::EC2::Route'',
         DependsOn = None,
         Properties =
          [(''RouteTableId'', Ref ''SageMakerPublicRouteTable''),
           (''DestinationCidrBlock'', Str ''0.0.0.0/0''),
           (''GatewayId'', Ref ''SageMakerInternetGateway'')]\<rparr>,
       \<lparr>LogicalId = ''studioVPCPublicSubnet1RouteTableAssociation'',
         ResourceType = ''AWS::EC2::SubnetRouteTableAssociation'', DependsOn = None,
         Properties =
          [(''SubnetId'', Ref ''SageMakerPublicSubnet1''),
           (''RouteTableId'', Ref ''SageMakerPublicRouteTable'')]\<rparr>,
       \<lparr>LogicalId = ''SageMakerNATEIP'', ResourceType = ''AWS::EC2::EIP'',
         DependsOn = Some ''SageMakerIGWAttachment'',
         Properties =
          [(''Domain'', Str ''vpc''),
           name_tag (Sub ''${AWS::StackName}-elastic-ip'')]\<rparr>,
       \<lparr>LogicalId = ''SageMakerNATGateway'', ResourceType = ''AWS::EC2::NatGateway'',
         DependsOn = Some ''SageMakerIGWAttachment'',
         Properties =
          [(''AllocationId'', GetAtt ''SageMakerNATEIP.AllocationId''),
           (''SubnetId'', Ref ''SageMakerPublicSubnet1''),
           name_tag (Sub ''${AWS::StackName}-nat-gateway'')]\<rparr>,
       \<lparr>LogicalId = ''SageMakerSecurityGroup'', ResourceType = ''AWS::EC2::SecurityGroup'',
         DependsOn = None,
         Properties =
          [(''SecurityGroupEgress'',
              Seq [Mapping [(''Description'', Str ''All traffic is allowed outbound''),
                            (''IpProtocol'', Str ''-1''),
                            (''CidrIp'', Str ''0.0.0.0/0'')]]),
           (''GroupDescription'', Str ''Security Group for SageMaker Studio''),
           (''VpcId'', Ref ''SageMakerVPC''),
           name_tag (Str ''studio-security-group'')]\<rparr>,
       \<lparr>LogicalId = ''SageMakerSecurityGroupSelfIngress'',
         ResourceType = ''AWS::EC2::SecurityGroupIngress'', DependsOn = None,
         Properties =
          [(''Description'',
              Str ''Self-ingress to enable communication between intances within the same SG''),
           (''IpProtocol'', Str ''-1''),
           (''SourceSecurityGroupId'', Ref ''SageMakerSecurityGroup''),
           (''GroupId'', Ref ''SageMakerSecurityGroup'')]\<rparr>],
     Outputs =
      [\<lparr>OutputId = ''SageMakerVPC'', OutputValue = Ref ''SageMakerVPC'',
         ExportName = Sub ''${AWS::StackName}-VPC''\<rparr>,
       \<lparr>OutputId = ''SageMakerSubnet1'', OutputValue = Ref ''SageMakerPrivateSubnet1'',
         ExportName = Sub ''${AWS::StackName}-Subnet1''\<rparr>,
       \<lparr>OutputId = ''SageMakerSubnet2'', OutputValue = Ref ''SageMakerPrivateSubnet2'',
         ExportName = Sub ''${AWS::StackName}-Subnet2''\<rparr>,
       \<lparr>OutputId = ''SageMakerSecurityGroup'', OutputValue = Ref ''SageMakerSecurityGroup'',
         ExportName = Sub ''${AWS::StackName}-SecurityGroup''\<rparr>]\<rparr>"

subsection \<open>\<^verbatim>\<open>setup/direct_mode/01_networking.yaml\<close>\<close>

definition direct_mode :: template where
  "direct_mode =
    \<lparr>Description = ''Provision the networking resources to be used by the Amazon SageMaker Studio domain.'',
     Resources =
      [\<lparr>LogicalId = ''SageMakerVPC'', ResourceType = ''AWS::EC2::VPC'', DependsOn = None,
         Properties =
          [(''CidrBlock'', Str ''10.0.0.0/16''),
           (''EnableDnsSupport'', Bool True),
           (''EnableDnsHostnames'', Bool True),
           name_tag (Sub ''${AWS::StackName}-vpc'')]\<rparr>,
       \<lparr>LogicalId = ''SageMakerInternetGateway'', ResourceType = ''AWS::EC2::InternetGateway'',
         DependsOn = None,
         Properties = [name_tag (Sub ''${AWS::StackName}-igw'')]\<rparr>,
       \<lparr>LogicalId = ''SageMakerIGWAttachment'', ResourceType = ''AWS::EC2::VPCGatewayAttachment'',
         DependsOn = None,
         Properties =
          [(''InternetGatewayId'', Ref ''SageMakerInternetGateway''),
           (''VpcId'', Ref ''SageMakerVPC'')]\<rparr>,
       \<lparr>LogicalId = ''SageMakerPublicSubnet1'', ResourceType = ''AWS::EC2::Subnet'',
         DependsOn = None,
         Properties =
          [(''VpcId'', Ref ''SageMakerVPC''),
           (''CidrBlock'', Str ''10.0.0.0/24''),
           nth_zone 0,
           name_tag (Sub ''${AWS::StackName}-public-subnet1'')]\<rparr>,
       \<lparr>LogicalId = ''SageMakerPublicSubnet2'', ResourceType = ''AWS::EC2::Subnet'',
         DependsOn = None,
         Properties =
          [(''VpcId'', Ref ''SageMakerVPC''),
           (''CidrBlock'', Str ''10.0.1.0/24''),
           nth_zone 1,
           name_tag (Sub ''${AWS::StackName}-public-subnet2'')]\<rparr>,
       \<lparr>LogicalId = ''SageMakerPublicRouteTable'', ResourceType = ''AWS::EC2::RouteTable'',
         DependsOn = None,
         Properties =
          [(''VpcId'', Ref ''SageMakerVPC''),
           name_tag (Sub ''${AWS::StackName}-public-routetable'')]\<rparr>,
       \<lparr>LogicalId = ''SageMakerPublicRoute'', ResourceType = ''AWS::EC2::Route'',
         DependsOn = None,
         Properties =
          [(''RouteTableId'', Ref ''SageMakerPublicRouteTable''),
           (''DestinationCidrBlock'', Str ''0.0.0.0/0''),
           (''GatewayId'', Ref ''SageMakerInternetGateway'')]\<rparr>,
       \<lparr>LogicalId = ''SageMakerPublicSubnet1RouteTableAssociation'',
         ResourceType = ''AWS::EC2::SubnetRouteTableAssociation'', DependsOn = None,
         Properties =
          [(''SubnetId'', Ref ''SageMakerPublicSubnet1''),
           (''RouteTableId'', Ref ''SageMakerPublicRouteTable'')]\<rparr>,
       \<lparr>LogicalId = ''SageMakerPublicSubnet2RouteTableAssociation'',
         ResourceType = ''AWS::EC2::SubnetRouteTableAssociation'', DependsOn = None,
         Properties =
          [(''SubnetId'', Ref ''SageMakerPublicSubnet2''),
           (''RouteTableId'', Ref ''SageMakerPublicRouteTable'')]\<rparr>],
     Outputs =
      [\<lparr>OutputId = ''SageMakerVPC'', OutputValue = Ref ''SageMakerVPC'',
         ExportName = Sub ''${AWS::StackName}-VPC''\<rparr>,
       \<lparr>OutputId = ''SageMakerSubnet1'', OutputValue = Ref ''SageMakerPublicSubnet1'',
         ExportName = Sub ''${AWS::StackName}-Subnet1''\<rparr>,
       \<lparr>OutputId = ''SageMakerSubnet2'', OutputValue = Ref ''SageMakerPublicSubnet2'',
         ExportName = Sub ''${AWS::StackName}-Subnet2''\<rparr>]\<rparr>"

subsection \<open>Reading a template\<close>

definition resources_of_type :: "template \<Rightarrow> string \<Rightarrow> resource list" where
  "resources_of_type t ty = filter (\<lambda>r. ResourceType r = ty) (Resources t)"

definition ids_of_type :: "template \<Rightarrow> string \<Rightarrow> string list" where
  "ids_of_type t ty = map LogicalId (resources_of_type t ty)"

definition property :: "resource \<Rightarrow> string \<Rightarrow> cfn option" where
  "property r k = map_of (Properties r) k"

text \<open>The logical id a property refers to with \<^verbatim>\<open>Ref\<close>, when the template declares a
  resource of the given type under that id.\<close>

definition ref_to :: "template \<Rightarrow> string \<Rightarrow> resource \<Rightarrow> string \<Rightarrow> string option" where
  "ref_to t ty r k =
     (case property r k of
        Some (Ref i) \<Rightarrow> (if i \<in> set (ids_of_type t ty) then Some i else None)
      | _ \<Rightarrow> None)"

text \<open>
  The default routes of a template whose target is of the given kind: the pairs of a declared
  route table and a declared target, for each \<^verbatim>\<open>AWS::EC2::Route\<close> with destination
  \<^verbatim>\<open>0.0.0.0/0\<close>. A NAT path is a default route to a NAT gateway
  (\<^verbatim>\<open>NatGatewayId\<close>); a public route is a default route to an internet gateway
  (\<^verbatim>\<open>GatewayId\<close>).
\<close>

definition default_route :: "template \<Rightarrow> string \<Rightarrow> string \<Rightarrow> resource \<Rightarrow> (string \<times> string) option" where
  "default_route t target_key target_type r =
     (if property r ''DestinationCidrBlock'' = Some (Str ''0.0.0.0/0'') then
        (case ref_to t ''AWS::EC2::RouteTable'' r ''RouteTableId'' of
           None \<Rightarrow> None
         | Some table \<Rightarrow>
             (case ref_to t target_type r target_key of
                None \<Rightarrow> None
              | Some target \<Rightarrow> Some (table, target)))
      else None)"

definition nat_paths :: "template \<Rightarrow> (string \<times> string) list" where
  "nat_paths t =
     List.map_filter (default_route t ''NatGatewayId'' ''AWS::EC2::NatGateway'')
       (resources_of_type t ''AWS::EC2::Route'')"

definition internet_routes :: "template \<Rightarrow> (string \<times> string) list" where
  "internet_routes t =
     List.map_filter (default_route t ''GatewayId'' ''AWS::EC2::InternetGateway'')
       (resources_of_type t ''AWS::EC2::Route'')"

text \<open>The associations of subnets with route tables: pairs of a subnet and its table.\<close>

definition association :: "template \<Rightarrow> resource \<Rightarrow> (string \<times> string) option" where
  "association t r =
     (case ref_to t ''AWS::EC2::Subnet'' r ''SubnetId'' of
        None \<Rightarrow> None
      | Some subnet \<Rightarrow>
          (case ref_to t ''AWS::EC2::RouteTable'' r ''RouteTableId'' of
             None \<Rightarrow> None
           | Some table \<Rightarrow> Some (subnet, table)))"

definition associations :: "template \<Rightarrow> (string \<times> string) list" where
  "associations t =
     List.map_filter (association t)
       (resources_of_type t ''AWS::EC2::SubnetRouteTableAssociation'')"

text \<open>
  A subnet is private when the route table it is associated with has a default route to a NAT
  gateway and none to an internet gateway.
\<close>

definition private_subnets :: "template \<Rightarrow> string list" where
  "private_subnets t =
     filter (\<lambda>s. case map_of (associations t) s of
                   None \<Rightarrow> False
                 | Some table \<Rightarrow>
                     table \<in> set (map fst (nat_paths t)) \<and>
                     table \<notin> set (map fst (internet_routes t)))
       (ids_of_type t ''AWS::EC2::Subnet'')"

subsection \<open>Address blocks\<close>

text \<open>
  A block \<^verbatim>\<open>a.b.c.d/n\<close> is read as the 32-bit address \<open>a.b.c.d\<close> and the prefix length
  \<open>n\<close>. It covers the addresses that agree with \<open>a.b.c.d\<close> on the first \<open>n\<close> bits.
\<close>

definition digit_val :: "char \<Rightarrow> int option" where
  "digit_val c = map_of (zip ''0123456789'' [0, 1, 2, 3, 4, 5, 6, 7, 8, 9]) c"

fun parse_digits :: "int \<Rightarrow> string \<Rightarrow> int option" where
  "parse_digits acc [] = Some acc"
| "parse_digits acc (c # cs) =
     (case digit_val c of None \<Rightarrow> None | Some d \<Rightarrow> parse_digits (10 * acc + d) cs)"

definition parse_decimal :: "string \<Rightarrow> int option" where
  "parse_decimal s = (if s = [] then None else parse_digits 0 s)"

text \<open>The fields of a string between occurrences of a separator; there is always one field.\<close>

fun split_on :: "char \<Rightarrow> string \<Rightarrow> string list" where
  "split_on sep [] = [[]]"
| "split_on sep (c # cs) =
     (if c = sep then [] # split_on sep cs
      else (case split_on sep cs of
              [] \<Rightarrow> [[c]]
            | f # fs \<Rightarrow> (c # f) # fs))"

record cidr =
  address :: int
  prefix_length :: nat

definition parse_address :: "string \<Rightarrow> int option" where
  "parse_address s =
     (case map parse_decimal (split_on CHR ''.'' s) of
        [Some a, Some b, Some c, Some d] \<Rightarrow>
          (if a \<le> 255 \<and> b \<le> 255 \<and> c \<le> 255 \<and> d \<le> 255
           then Some (((a * 256 + b) * 256 + c) * 256 + d) else None)
      | _ \<Rightarrow> None)"

definition parse_cidr :: "string \<Rightarrow> cidr option" where
  "parse_cidr s =
     (case split_on CHR ''/'' s of
        [a, n] \<Rightarrow>
          (case (parse_address a, parse_decimal n) of
             (Some addr, Some len) \<Rightarrow>
               (if len \<le> 32 then Some \<lparr>address = addr, prefix_length = nat len\<rparr> else None)
           | _ \<Rightarrow> None)
      | _ \<Rightarrow> None)"

definition block_size :: "cidr \<Rightarrow> int" where
  "block_size c = 2 ^ (32 - prefix_length c)"

definition first_address :: "cidr \<Rightarrow> int" where
  "first_address c = address c - address c mod block_size c"

definition last_address :: "cidr \<Rightarrow> int" where
  "last_address c = first_address c + block_size c - 1"

definition covers :: "cidr \<Rightarrow> int \<Rightarrow> bool" where
  "covers c a = (first_address c \<le> a \<and> a \<le> last_address c)"

definition contained_in :: "cidr \<Rightarrow> cidr \<Rightarrow> bool" where
  "contained_in inner outer =
     (first_address outer \<le> first_address inner \<and> last_address inner \<le> last_address outer)"

definition disjoint_blocks :: "cidr \<Rightarrow> cidr \<Rightarrow> bool" where
  "disjoint_blocks a b = (last_address a < first_address b \<or> last_address b < first_address a)"

fun pairwise_disjoint :: "cidr list \<Rightarrow> bool" where
  "pairwise_disjoint [] = True"
| "pairwise_disjoint (c # cs) = (list_all (disjoint_blocks c) cs \<and> pairwise_disjoint cs)"

text \<open>The \<^verbatim>\<open>CidrBlock\<close> of every resource of a type, as written and as read.\<close>

definition cidr_literals :: "template \<Rightarrow> string \<Rightarrow> cfn option list" where
  "cidr_literals t ty = map (\<lambda>r. property r ''CidrBlock'') (resources_of_type t ty)"

definition read_block :: "cfn option \<Rightarrow> cidr option" where
  "read_block v = (case v of Some (Str s) \<Rightarrow> parse_cidr s | _ \<Rightarrow> None)"

definition cidr_blocks :: "template \<Rightarrow> string \<Rightarrow> cidr option list" where
  "cidr_blocks t ty = map read_block (cidr_literals t ty)"

subsection \<open>Stack outputs\<close>

text \<open>
  \<^verbatim>\<open>Fn::Sub\<close> with the one variable the templates use: every occurrence of
  \<^verbatim>\<open>${AWS::StackName}\<close> is replaced by the name of the stack.
\<close>

fun fn_sub :: "string \<Rightarrow> string \<Rightarrow> string" where
  "fn_sub stack_name [] = []"
| "fn_sub stack_name (c # cs) =
     (if take 17 (c # cs) = ''${AWS::StackName}''
      then stack_name @ fn_sub stack_name (drop 16 cs)
      else c # fn_sub stack_name cs)"

text \<open>The exports of a stack created from a template: export name, output id and value.\<close>

definition export_of :: "string \<Rightarrow> stack_output \<Rightarrow> (string \<times> string \<times> cfn) option" where
  "export_of stack_name out =
     (case ExportName out of
        Sub s \<Rightarrow> Some (fn_sub stack_name s, OutputId out, OutputValue out)
      | Str s \<Rightarrow> Some (s, OutputId out, OutputValue out)
      | _ \<Rightarrow> None)"

definition exports :: "string \<Rightarrow> template \<Rightarrow> (string \<times> string \<times> cfn) list" where
  "exports stack_name t = List.map_filter (export_of stack_name) (Outputs t)"

text \<open>The type of the resource an output value refers to.\<close>

definition referred_type :: "template \<Rightarrow> cfn \<Rightarrow> string option" where
  "referred_type t v =
     (case v of
        Ref i \<Rightarrow> map_option ResourceType (find (\<lambda>r. LogicalId r = i) (Resources t))
      | _ \<Rightarrow> None)"

section \<open>The pipeline notebook of module 8\<close>

subsection \<open>Parameters, arguments and steps\<close>

text \<open>
  A workflow parameter is built by \<^verbatim>\<open>ParameterString(name=..., default_value=...)\<close> or
  \<^verbatim>\<open>ParameterInteger(name=..., default_value=...)\<close>.
\<close>

datatype pvalue = StrValue string | IntValue int

datatype parameter =
    ParameterString string string
  | ParameterInteger string int

fun name :: "parameter \<Rightarrow> string" where
  "name (ParameterString n d) = n"
| "name (ParameterInteger n d) = n"

fun default_value :: "parameter \<Rightarrow> pvalue" where
  "default_value (ParameterString n d) = StrValue d"
| "default_value (ParameterInteger n d) = IntValue d"

text \<open>
  What the notebook passes to the builders of the SDK: a string, an integer, a workflow
  parameter, a property of a step (\<^verbatim>\<open>step.properties.A.B['k'].C\<close>, which names the step and
  the path below \<^verbatim>\<open>properties\<close>), a list, a dictionary, or an object built by a constructor
  from keyword arguments.
\<close>

datatype arg =
    S string
  | I int
  | P parameter
  | Prop string "string list"
  | L "arg list"
  | D "(string \<times> arg) list"
  | Obj string "(string \<times> arg) list"

text \<open>A step of the workflow: its class, its \<^verbatim>\<open>name\<close> and its other keyword arguments.\<close>

record step =
  step_class :: string
  step_name :: string
  step_args :: "(string \<times> arg) list"

definition properties :: "step \<Rightarrow> string list \<Rightarrow> arg" where
  "properties st path = Prop (step_name st) path"

record pipeline_def =
  pipeline_name :: string
  parameters :: "parameter list"
  steps :: "step list"
  sagemaker_session :: arg

text \<open>
  What the notebook reads from its environment: the execution role, the default bucket of the
  session, and the four values of \<^verbatim>\<open>str(int(time.time()))\<close> at the cells that name the
  models and the endpoint.
\<close>

record notebook_env =
  role :: string
  bucket_name :: string
  sklearn_model_time :: string
  xgboost_model_time :: string
  pipeline_model_time :: string
  endpoint_time :: string

definition prefix :: string where
  "prefix = ''end-to-end-ml''"

definition session :: arg where
  "session = Obj ''sagemaker.Session'' []"

text \<open>\<^verbatim>\<open>'s3://{0}/{1}<rest>'.format(bucket_name, prefix)\<close>\<close>

definition s3_path :: "notebook_env \<Rightarrow> string \<Rightarrow> string" where
  "s3_path env rest = ''s3://'' @ bucket_name env @ ''/'' @ prefix @ rest"

subsection \<open>Pipeline parameters\<close>

definition raw_data_path :: "notebook_env \<Rightarrow> string" where
  "raw_data_path env = s3_path env ''/data/raw/''"

definition raw_data_path_param :: "notebook_env \<Rightarrow> parameter" where
  "raw_data_path_param env = ParameterString ''raw_data_path'' (raw_data_path env)"

definition train_data_path :: "notebook_env \<Rightarrow> string" where
  "train_data_path env = s3_path env ''/data/preprocessed/train/''"

definition train_data_path_param :: "notebook_env \<Rightarrow> parameter" where
  "train_data_path_param env = ParameterString ''train_data_path'' (train_data_path env)"

definition val_data_path :: "notebook_env \<Rightarrow> string" where
  "val_data_path env = s3_path env ''/data/preprocessed/val/''"

definition val_data_path_param :: "notebook_env \<Rightarrow> parameter" where
  "val_data_path_param env = ParameterString ''val_data_path'' (val_data_path env)"

definition test_data_path :: "notebook_env \<Rightarrow> string" where
  "test_data_path env = s3_path env ''/data/preprocessed/test/''"

definition test_data_path_param :: "notebook_env \<Rightarrow> parameter" where
  "test_data_path_param env = ParameterString ''test_data_path'' (test_data_path env)"

definition model_path :: "notebook_env \<Rightarrow> string" where
  "model_path env = s3_path env ''/output/sklearn/model.tar.gz''"

definition model_path_param :: "notebook_env \<Rightarrow> parameter" where
  "model_path_param env = ParameterString ''model_path'' (model_path env)"

definition processing_instance_type_param :: parameter where
  "processing_instance_type_param = ParameterString ''processing_instance_type'' ''ml.m5.large''"

definition processing_instance_count_param :: parameter where
  "processing_instance_count_param = ParameterInteger ''processing_instance_count'' 1"

definition train_test_split_ratio_param :: parameter where
  "train_test_split_ratio_param = ParameterString ''train_test_split_ratio'' ''0.2''"

definition max_depth_param :: parameter where
  "max_depth_param = ParameterString ''max_depth'' ''3''"

definition eta_param :: parameter where
  "eta_param = ParameterString ''eta'' ''0.1''"

definition gamma_param :: parameter where
  "gamma_param = ParameterString ''gamma'' ''0''"

definition min_child_weight_param :: parameter where
  "min_child_weight_param = ParameterString ''min_child_weight'' ''1''"

definition objective_param :: parameter where
  "objective_param = ParameterString ''objective'' ''binary:logistic''"

definition num_round_param :: parameter where
  "num_round_param = ParameterString ''num_round'' ''10''"

definition eval_metric_param :: parameter where
  "eval_metric_param = ParameterString ''eval_metric'' ''auc''"

definition training_instance_type_param :: parameter where
  "training_instance_type_param = ParameterString ''training_instance_type'' ''ml.m5.xlarge''"

definition training_instance_count_param :: parameter where
  "training_instance_count_param = ParameterInteger ''training_instance_count'' 1"

definition output_path :: "notebook_env \<Rightarrow> string" where
  "output_path env = s3_path env ''/output/''"

definition output_path_param :: "notebook_env \<Rightarrow> parameter" where
  "output_path_param env = ParameterString ''output_path'' (output_path env)"

definition deploy_instance_type_param :: parameter where
  "deploy_instance_type_param = ParameterString ''deploy_instance_type'' ''ml.m5.2xlarge''"

definition model_approval_status_param :: parameter where
  "model_approval_status_param =
     ParameterString ''model_approval_status'' ''PendingManualApproval''"

text \<open>The parameters the cell declares, in the order of their declarations.\<close>

definition declared_parameters :: "notebook_env \<Rightarrow> parameter list" where
  "declared_parameters env =
     [raw_data_path_param env, train_data_path_param env, val_data_path_param env,
      test_data_path_param env, model_path_param env, processing_instance_type_param,
      processing_instance_count_param, train_test_split_ratio_param, max_depth_param,
      eta_param, gamma_param, min_child_weight_param, objective_param, num_round_param,
      eval_metric_param, training_instance_type_param, training_instance_count_param,
      output_path_param env, deploy_instance_type_param, model_approval_status_param]"

subsection \<open>Processing step\<close>

definition sklearn_processor :: "notebook_env \<Rightarrow> arg" where
  "sklearn_processor env =
     Obj ''SKLearnProcessor''
       [(''role'', S (role env)),
        (''instance_type'', P processing_instance_type_param),
        (''instance_count'', P processing_instance_count_param),
        (''framework_version'', S ''0.20.0'')]"

definition inputs :: "notebook_env \<Rightarrow> arg list" where
  "inputs env =
     [Obj ''ProcessingInput''
        [(''input_name'', S ''raw_data''),
         (''source'', P (raw_data_path_param env)),
         (''destination'', S ''/opt/ml/processing/input'')]]"

definition outputs :: "notebook_env \<Rightarrow> arg list" where
  "outputs env =
     [Obj ''ProcessingOutput''
        [(''output_name'', S ''train_data''),
         (''source'', S ''/opt/ml/processing/train''),
         (''destination'', P (train_data_path_param env))],
      Obj ''ProcessingOutput''
        [(''output_name'', S ''val_data''),
         (''source'', S ''/opt/ml/processing/val''),
         (''destination'', P (val_data_path_param env))],
      Obj ''ProcessingOutput''
        [(''output_name'', S ''test_data''),
         (''source'', S ''/opt/ml/processing/test''),
         (''destination'', P (test_data_path_param env))],
      Obj ''ProcessingOutput''
        [(''output_name'', S ''model''),
         (''source'', S ''/opt/ml/processing/model''),
         (''destination'', P (model_path_param env))]]"

definition code_path :: string where
  "code_path = ''../03_feature_engineering/source_dir/preprocessor.py''"

definition processing_step :: "notebook_env \<Rightarrow> step" where
  "processing_step env =
     \<lparr>step_class = ''ProcessingStep'', step_name = ''Processing'',
      step_args =
        [(''code'', S code_path),
         (''processor'', sklearn_processor env),
         (''inputs'', L (inputs env)),
         (''outputs'', L (outputs env)),
         (''job_arguments'', L [S ''--train-test-split-ratio'', P train_test_split_ratio_param])]\<rparr>"

subsection \<open>Training step\<close>

definition hyperparameters :: arg where
  "hyperparameters =
     D [(''max_depth'', P max_depth_param),
        (''eta'', P eta_param),
        (''gamma'', P gamma_param),
        (''min_child_weight'', P min_child_weight_param),
        (''silent'', I 0),
        (''objective'', P objective_param),
        (''num_round'', P num_round_param),
        (''eval_metric'', P eval_metric_param)]"

definition entry_point :: string where
  "entry_point = ''training.py''"

definition source_dir :: string where
  "source_dir = ''../04_train_model/source_dir/''"

definition code_location :: "notebook_env \<Rightarrow> string" where
  "code_location env = s3_path env ''/code''"

definition estimator :: "notebook_env \<Rightarrow> arg" where
  "estimator env =
     Obj ''XGBoost''
       [(''entry_point'', S entry_point),
        (''source_dir'', S source_dir),
        (''output_path'', P (output_path_param env)),
        (''code_location'', S (code_location env)),
        (''hyperparameters'', hyperparameters),
        (''instance_type'', P training_instance_type_param),
        (''instance_count'', P training_instance_count_param),
        (''framework_version'', S ''0.90-2''),
        (''py_version'', S ''py3''),
        (''role'', S (role env))]"

definition training_step :: "notebook_env \<Rightarrow> step" where
  "training_step env =
     \<lparr>step_class = ''TrainingStep'', step_name = ''Training'',
      step_args =
        [(''estimator'', estimator env),
         (''inputs'',
            D [(''train'',
                  Obj ''TrainingInput''
                    [(''s3_data'',
                        properties (processing_step env)
                          [''ProcessingOutputConfig'', ''Outputs'', ''train_data'',
                           ''S3Output'', ''S3Uri'']),
                     (''content_type'', S ''text/csv'')]),
               (''validation'',
                  Obj ''TrainingInput''
                    [(''s3_data'',
                        properties (processing_step env)
                          [''ProcessingOutputConfig'', ''Outputs'', ''val_data'',
                           ''S3Output'', ''S3Uri'']),
                     (''content_type'', S ''text/csv'')])])]\<rparr>"

subsection \<open>Register model step\<close>

definition sklearn_model :: "notebook_env \<Rightarrow> arg" where
  "sklearn_model env =
     Obj ''SKLearnModel''
       [(''name'', S (''end-to-end-ml-sm-skl-model-'' @ sklearn_model_time env)),
        (''model_data'',
           properties (processing_step env)
             [''ProcessingOutputConfig'', ''Outputs'', ''model'', ''S3Output'', ''S3Uri'']),
        (''entry_point'', S ''inference.py''),
        (''source_dir'', S ''../05_deploy_model/sklearn_source_dir/''),
        (''code_location'', S (code_location env)),
        (''role'', S (role env)),
        (''sagemaker_session'', session),
        (''framework_version'', S ''0.20.0''),
        (''py_version'', S ''py3'')]"

definition xgboost_model :: "notebook_env \<Rightarrow> arg" where
  "xgboost_model env =
     Obj ''XGBoostModel''
       [(''name'', S (''end-to-end-ml-sm-xgb-model-'' @ xgboost_model_time env)),
        (''model_data'',
           properties (training_step env) [''ModelArtifacts'', ''S3ModelArtifacts'']),
        (''entry_point'', S ''inference.py''),
        (''source_dir'', S ''../05_deploy_model/xgboost_source_dir/''),
        (''code_location'', S (code_location env)),
        (''framework_version'', S ''0.90-2''),
        (''py_version'', S ''py3''),
        (''role'', S (role env)),
        (''sagemaker_session'', session)]"

definition pipeline_model_name :: "notebook_env \<Rightarrow> string" where
  "pipeline_model_name env = ''end-to-end-ml-sm-xgb-skl-pipeline-'' @ pipeline_model_time env"

definition pipeline_model :: "notebook_env \<Rightarrow> arg" where
  "pipeline_model env =
     Obj ''PipelineModel''
       [(''name'', S (pipeline_model_name env)),
        (''role'', S (role env)),
        (''models'', L [sklearn_model env, xgboost_model env]),
        (''sagemaker_session'', session)]"

definition model_package_group_name :: string where
  "model_package_group_name = ''end-to-end-ml-sm-model-package-group''"

definition register_model_step :: "notebook_env \<Rightarrow> step" where
  "register_model_step env =
     \<lparr>step_class = ''RegisterModel'', step_name = ''RegisterModel'',
      step_args =
        [(''content_types'', L [S ''text/csv'']),
         (''response_types'', L [S ''application/json'', S ''text/csv'']),
         (''inference_instances'', L [P deploy_instance_type_param]),
         (''transform_instances'', L [S ''ml.c5.4xlarge'']),
         (''model_package_group_name'', S model_package_group_name),
         (''approval_status'', P model_approval_status_param),
         (''model'', pipeline_model env)]\<rparr>"

subsection \<open>Pipeline\<close>

definition pipeline :: "notebook_env \<Rightarrow> pipeline_def" where
  "pipeline env =
     \<lparr>pipeline_name = ''end-to-end-ml-sagemaker-pipeline'',
      parameters =
        [raw_data_path_param env,
         train_data_path_param env,
         val_data_path_param env,
         test_data_path_param env,
         model_path_param env,
         processing_instance_type_param,
         processing_instance_count_param,
         train_test_split_ratio_param,
         max_depth_param,
         eta_param,
         gamma_param,
         min_child_weight_param,
         objective_param,
         num_round_param,
         eval_metric_param,
         training_instance_type_param,
         training_instance_count_param,
         output_path_param env,
         deploy_instance_type_param,
         model_approval_status_param],
      steps = [processing_step env, training_step env, register_model_step env],
      sagemaker_session = session\<rparr>"

subsection \<open>Reading the definition of a pipeline\<close>

definition kwarg :: "arg \<Rightarrow> string \<Rightarrow> arg option" where
  "kwarg a k = (case a of Obj c kws \<Rightarrow> map_of kws k | _ \<Rightarrow> None)"

text \<open>The steps whose properties an argument refers to.\<close>

fun arg_refs :: "arg \<Rightarrow> string list"
  and args_refs :: "arg list \<Rightarrow> string list"
  and kw_refs :: "(string \<times> arg) list \<Rightarrow> string list" where
  "arg_refs (S x) = []"
| "arg_refs (I n) = []"
| "arg_refs (P p) = []"
| "arg_refs (Prop st path) = [st]"
| "arg_refs (L xs) = args_refs xs"
| "arg_refs (D kvs) = kw_refs kvs"
| "arg_refs (Obj c kws) = kw_refs kws"
| "args_refs [] = []"
| "args_refs (x # xs) = arg_refs x @ args_refs xs"
| "kw_refs [] = []"
| "kw_refs ((k, v) # kvs) = arg_refs v @ kw_refs kvs"

text \<open>
  The notebook: ``the dependencies among the steps will be automatically computed based on
  the inputs and outputs of each step''. A step depends on the steps whose properties its
  arguments refer to.
\<close>

definition step_deps :: "step \<Rightarrow> string list" where
  "step_deps st = remdups (kw_refs (step_args st))"

definition depends_on :: "step \<Rightarrow> step \<Rightarrow> bool" where
  "depends_on a b = (step_name b \<in> set (step_deps a))"

text \<open>The \<^verbatim>\<open>s3_data\<close> of the \<^verbatim>\<open>TrainingInput\<close> of a channel of a training step.\<close>

definition channel_s3_data :: "step \<Rightarrow> string \<Rightarrow> arg option" where
  "channel_s3_data st channel =
     (case map_of (step_args st) ''inputs'' of
        Some (D channels) \<Rightarrow>
          (case map_of channels channel of
             Some training_input \<Rightarrow> kwarg training_input ''s3_data''
           | None \<Rightarrow> None)
      | _ \<Rightarrow> None)"

text \<open>The \<^verbatim>\<open>destination\<close> of the \<^verbatim>\<open>ProcessingOutput\<close> of a processing step with a given
  \<^verbatim>\<open>output_name\<close>: the S3 URI the output is written to.\<close>

definition output_s3_uri :: "step \<Rightarrow> string \<Rightarrow> arg option" where
  "output_s3_uri st output_name =
     (case map_of (step_args st) ''outputs'' of
        Some (L outs) \<Rightarrow>
          (case find (\<lambda>out. kwarg out ''output_name'' = Some (S output_name)) outs of
             Some out \<Rightarrow> kwarg out ''destination''
           | None \<Rightarrow> None)
      | _ \<Rightarrow> None)"

text \<open>What \<^verbatim>\<open>ProcessingOutputConfig.Outputs[name].S3Output.S3Uri\<close> of a step of the pipeline
  stands for.\<close>

definition resolve_property :: "step list \<Rightarrow> arg \<Rightarrow> arg option" where
  "resolve_property sts a =
     (case a of
        Prop st [config, outs, output_name, s3_output, s3_uri] \<Rightarrow>
          (if config = ''ProcessingOutputConfig'' \<and> outs = ''Outputs'' \<and>
              s3_output = ''S3Output'' \<and> s3_uri = ''S3Uri''
           then (case find (\<lambda>x. step_name x = st) sts of
                   Some x \<Rightarrow> output_s3_uri x output_name
                 | None \<Rightarrow> None)
           else None)
      | _ \<Rightarrow> None)"

subsection \<open>Running the pipeline, approving and deploying\<close>

text \<open>
  The calls the notebook makes to the platform after it has defined the pipeline, one per
  cell: \<^verbatim>\<open>pipeline.upsert\<close>, \<^verbatim>\<open>pipeline.start\<close>, \<^verbatim>\<open>execution.wait\<close>,
  \<^verbatim>\<open>execution.list_steps\<close>, \<^verbatim>\<open>sm_client.describe_model_package\<close>,
  \<^verbatim>\<open>sm_client.update_model_package\<close>, \<^verbatim>\<open>model_package.deploy\<close>, \<^verbatim>\<open>predictor.predict\<close>
  and \<^verbatim>\<open>predictor.delete_endpoint\<close>.
\<close>

datatype call =
    upsert pipeline_def
  | start "(string \<times> pvalue) list"
  | wait
  | list_steps
  | describe_model_package
  | update_model_package string
  | deploy int string string
  | predict string
  | delete_endpoint string

definition endpoint_name :: "notebook_env \<Rightarrow> string" where
  "endpoint_name env = ''end-to-end-ml-sm-pipeline-endpoint-'' @ endpoint_time env"

definition payload :: string where
  "payload = ''L,298.4,308.2,1582,70.7,216''"

definition notebook_calls :: "notebook_env \<Rightarrow> call list" where
  "notebook_calls env =
     [upsert (pipeline env),
      start [(''train_test_split_ratio'', StrValue ''0.2'')],
      wait,
      list_steps,
      describe_model_package,
      update_model_package ''Approved'',
      deploy 1 ''ml.m5.2xlarge'' (endpoint_name env),
      predict payload,
      delete_endpoint (endpoint_name env)]"

text \<open>
  The platform, as far as the notebook talks about it: the pipeline that was upserted, the
  parameters of the execution that was started, the approval status of the model package in
  the registry (\<open>None\<close> before the package is registered), the endpoints that exist, and a
  log of the deployments, each with the approval status the package had when \<^verbatim>\<open>deploy\<close>
  was called.
\<close>

record platform =
  upserted :: "pipeline_def option"
  started :: "(string \<times> pvalue) list option"
  approval_status :: "pvalue option"
  endpoints :: "string list"
  deployments :: "(string \<times> pvalue option) list"

definition initial :: platform where
  "initial = \<lparr>upserted = None, started = None, approval_status = None, endpoints = [],
              deployments = []\<rparr>"

text \<open>
  The notebook: ``SageMaker Pipelines will use the default values for those parameters that
  are not passed in when starting the execution.''
\<close>

definition value_of :: "(string \<times> pvalue) list \<Rightarrow> arg \<Rightarrow> pvalue option" where
  "value_of given a =
     (case a of
        S x \<Rightarrow> Some (StrValue x)
      | I n \<Rightarrow> Some (IntValue n)
      | P p \<Rightarrow> (case map_of given (name p) of
                  Some v \<Rightarrow> Some v
                | None \<Rightarrow> Some (default_value p))
      | _ \<Rightarrow> None)"

text \<open>The approval status the \<^verbatim>\<open>RegisterModel\<close> step of a pipeline registers the package
  with, in an execution started with the given parameters.\<close>

definition registered_status :: "pipeline_def \<Rightarrow> (string \<times> pvalue) list \<Rightarrow> pvalue option" where
  "registered_status pl given =
     (case find (\<lambda>st. step_class st = ''RegisterModel'') (steps pl) of
        None \<Rightarrow> None
      | Some st \<Rightarrow>
          (case map_of (step_args st) ''approval_status'' of
             None \<Rightarrow> None
           | Some a \<Rightarrow> value_of given a))"

fun exec :: "platform \<Rightarrow> call \<Rightarrow> platform" where
  "exec w (upsert pl) = w\<lparr>upserted := Some pl\<rparr>"
| "exec w (start given) = w\<lparr>started := Some given\<rparr>"
| "exec w wait =
     (case (upserted w, started w) of
        (Some pl, Some given) \<Rightarrow> w\<lparr>approval_status := registered_status pl given\<rparr>
      | _ \<Rightarrow> w)"
| "exec w list_steps = w"
| "exec w describe_model_package = w"
| "exec w (update_model_package status) =
     (if approval_status w = None then w else w\<lparr>approval_status := Some (StrValue status)\<rparr>)"
| "exec w (deploy initial_instance_count instance_type ep) =
     w\<lparr>endpoints := ep # endpoints w,
       deployments := deployments w @ [(ep, approval_status w)]\<rparr>"
| "exec w (predict data) = w"
| "exec w (delete_endpoint ep) = w\<lparr>endpoints := removeAll ep (endpoints w)\<rparr>"

definition run :: "call list \<Rightarrow> platform" where
  "run calls = foldl exec initial calls"

fun is_deploy :: "call \<Rightarrow> bool" where
  "is_deploy (deploy n ty ep) = True"
| "is_deploy c = False"

section \<open>Properties of templates and sample inputs\<close>

subsection \<open>Properties of a template\<close>

text \<open>
  A template that declares a virtual network, subnets, route tables, a NAT path and a security
  group.
\<close>

definition declares_private_network :: "template \<Rightarrow> bool" where
  "declares_private_network t =
     (ids_of_type t ''AWS::EC2::VPC'' \<noteq> [] \<and>
      ids_of_type t ''AWS::EC2::Subnet'' \<noteq> [] \<and>
      ids_of_type t ''AWS::EC2::RouteTable'' \<noteq> [] \<and>
      ids_of_type t ''AWS::EC2::NatGateway'' \<noteq> [] \<and>
      nat_paths t \<noteq> [] \<and>
      ids_of_type t ''AWS::EC2::SecurityGroup'' \<noteq> [])"

text \<open>
  A template with one virtual network whose subnets all have a \<^verbatim>\<open>/24\<close> block inside the
  block of the network, no two of them sharing an address.
\<close>

definition subnets_within_vpc :: "template \<Rightarrow> bool" where
  "subnets_within_vpc t =
     (case (cidr_blocks t ''AWS::EC2::VPC'', those (cidr_blocks t ''AWS::EC2::Subnet'')) of
        ([Some v], Some ss) \<Rightarrow>
          ss \<noteq> [] \<and> list_all (\<lambda>s. prefix_length s = 24 \<and> contained_in s v) ss \<and>
          pairwise_disjoint ss
      | _ \<Rightarrow> False)"

text \<open>The types of the resources the outputs refer to, and the subnets among them.\<close>

definition exported_types :: "template \<Rightarrow> string option list" where
  "exported_types t = map (\<lambda>out. referred_type t (OutputValue out)) (Outputs t)"

definition exported_subnets :: "template \<Rightarrow> string list" where
  "exported_subnets t =
     List.map_filter
       (\<lambda>out. case OutputValue out of
                 Ref i \<Rightarrow> (if i \<in> set (ids_of_type t ''AWS::EC2::Subnet'') then Some i else None)
               | _ \<Rightarrow> None)
       (Outputs t)"

subsection \<open>Sample requests and endpoints\<close>

text \<open>
  For the samples a float is its decimal text, and \<^verbatim>\<open>str\<close> of a float or of a string is
  that text.
\<close>

definition sample_str :: "string pyval \<Rightarrow> string" where
  "sample_str v = (case v of PFloat r \<Rightarrow> r | PStr x \<Rightarrow> x | _ \<Rightarrow> [])"

text \<open>An endpoint that gives one reply to every call, and a parser that reads that reply as
  the given value and nothing else.\<close>

definition replying :: "string \<Rightarrow> string pyval \<Rightarrow> string runtime" where
  "replying reply parsed =
     \<lparr>invoke_endpoint = (\<lambda>c. Inr reply),
      json_loads = (\<lambda>x. if x = reply then Inr parsed else Inl JSONDecodeError),
      py_str = sample_str\<rparr>"

definition scoring_runtime :: "string runtime" where
  "scoring_runtime =
     replying ''{\"predictions\": [{\"score\": 0.0312}]}''
       (PDict [(''predictions'', PList [PDict [(''score'', PFloat ''0.0312'')]])])"


text \<open>The event of a request from the gateway, with a method and a body, and one without a
  body.\<close>

definition request :: "string \<Rightarrow> string \<Rightarrow> (string \<rightharpoonup> string pyval)" where
  "request verb data =
     [''requestContext'' \<mapsto> PDict [], ''httpMethod'' \<mapsto> PStr verb, ''body'' \<mapsto> PStr data]"

definition bodiless_request :: "string \<Rightarrow> (string \<rightharpoonup> string pyval)" where
  "bodiless_request verb =
     [''requestContext'' \<mapsto> PDict [], ''httpMethod'' \<mapsto> PStr verb]"

text \<open>An event that does not come from the gateway.\<close>

definition direct_event :: "string \<rightharpoonup> string pyval" where
  "direct_event = [''httpMethod'' \<mapsto> PStr ''POST'', ''body'' \<mapsto> PStr payload]"

text \<open>An environment of the notebook.\<close>

definition sample_env :: notebook_env where
  "sample_env =
     \<lparr>role = ''arn:aws:iam::111122223333:role/SageMakerExecutionRole'',
      bucket_name = ''sagemaker-eu-west-1-111122223333'',
      sklearn_model_time = ''1700000000'',
      xgboost_model_time = ''1700000001'',
      pipeline_model_time = ''1700000002'',
      endpoint_time = ''1700000900''\<rparr>"

section \<open>The handler: what it returns\<close>

lemma build_response_of_str: "build_response str status_code (PStr x) = Inl TypeError"
  by (simp add: build_response_def)

lemma build_response_of_scores:
  assumes "getitem result (KStr ''predictions'') = Inr predictions"
    and "getitem predictions (KInt 0) = Inr first"
    and "getitem first (KStr ''score'') = Inr score"
  shows "build_response str status_code result =
           Inr \<lparr>statusCode = status_code, body = str score, headers = cors_headers\<rparr>"
  using assms by (simp add: build_response_def)

lemma build_response_only_of_scores:
  assumes "build_response str status_code result = Inr d"
  shows "\<exists>predictions first score.
           getitem result (KStr ''predictions'') = Inr predictions \<and>
           getitem predictions (KInt 0) = Inr first \<and>
           getitem first (KStr ''score'') = Inr score \<and>
           d = \<lparr>statusCode = status_code, body = str score, headers = cors_headers\<rparr>"
  using assms by (auto simp: build_response_def split: sum.splits)




text \<open>
  C2. An \<^verbatim>\<open>OPTIONS\<close> request reaches \<^verbatim>\<open>build_response(200, '')\<close>, which subscripts the
  empty string with \<^verbatim>\<open>'predictions'\<close>: the handler raises \<^verbatim>\<open>TypeError\<close> and returns no
  response, for every event with a \<^verbatim>\<open>requestContext\<close> key and method \<^verbatim>\<open>OPTIONS\<close>.
\<close>

theorem options_raises_type_error:
  assumes "event ''requestContext'' = Some rc"
    and "event ''httpMethod'' = Some (PStr ''OPTIONS'')"
  shows "lambda_handler rt event = ([], Inl TypeError)"
  using assms by (simp add: lambda_handler_def build_response_of_str returning_def)

theorem options_raises_type_error_witness:
  "lambda_handler scoring_runtime (bodiless_request ''OPTIONS'') = ([], Inl TypeError)"
  by (rule options_raises_type_error [where rc = "PDict []"])
     (simp_all add: bodiless_request_def)

text \<open>
  C3. A request with any other method reaches \<^verbatim>\<open>build_response(405, 'null')\<close>, which
  subscripts the string \<^verbatim>\<open>'null'\<close> with \<^verbatim>\<open>'predictions'\<close>: the handler raises
  \<^verbatim>\<open>TypeError\<close> and returns no response, for every event with a \<^verbatim>\<open>requestContext\<close> key
  and a method that is neither \<^verbatim>\<open>OPTIONS\<close> nor \<^verbatim>\<open>POST\<close>.
\<close>

theorem other_method_raises_type_error:
  assumes "event ''requestContext'' = Some rc"
    and "event ''httpMethod'' = Some verb"
    and "verb \<noteq> PStr ''OPTIONS''"
    and "verb \<noteq> PStr ''POST''"
  shows "lambda_handler rt event = ([], Inl TypeError)"
  using assms by (simp add: lambda_handler_def build_response_of_str returning_def)

theorem other_method_raises_type_error_witness:
  "lambda_handler scoring_runtime (request ''GET'' []) = ([], Inl TypeError)"
  by (rule other_method_raises_type_error [where rc = "PDict []" and verb = "PStr ''GET''"])
     (simp_all add: request_def)

text \<open>
  C4. For every event without a \<^verbatim>\<open>requestContext\<close> key the handler returns \<^verbatim>\<open>None\<close>,
  whatever the rest of the event is; it calls nothing and raises nothing.
\<close>

theorem no_request_context_returns_none:
  assumes "event ''requestContext'' = None"
  shows "lambda_handler rt event = ([], Inr None)"
  using assms by (simp add: lambda_handler_def)

theorem no_request_context_returns_none_witness:
  "lambda_handler scoring_runtime direct_event = ([], Inr None)"
  by (rule no_request_context_returns_none) (simp add: direct_event_def)

section \<open>The networking templates: what they declare\<close>

text \<open>
  A block covers the addresses that agree with its own address on the first
  \<open>prefix_length\<close> bits; containment and disjointness of blocks are containment and
  disjointness of the sets of addresses they cover.
\<close>

lemma block_size_pos: "0 < block_size c"
  by (simp add: block_size_def)

lemma first_address_eq: "first_address c = block_size c * (address c div block_size c)"
  by (simp add: first_address_def minus_mod_eq_mult_div)

lemma covers_iff_same_prefix:
  "covers c x \<longleftrightarrow> x div block_size c = address c div block_size c"
proof
  assume "covers c x"
  then have "block_size c * (address c div block_size c) \<le> x"
    and "x < block_size c * (address c div block_size c) + block_size c"
    by (simp_all add: covers_def last_address_def first_address_eq)
  then show "x div block_size c = address c div block_size c"
    by (intro int_div_pos_eq [where r = "x - block_size c * (address c div block_size c)"])
       simp_all
next
  assume same: "x div block_size c = address c div block_size c"
  have "x = block_size c * (x div block_size c) + x mod block_size c"
    by simp
  moreover have "0 \<le> x mod block_size c" and "x mod block_size c < block_size c"
    using block_size_pos [of c] by simp_all
  ultimately show "covers c x"
    unfolding covers_def last_address_def first_address_eq same [symmetric] by linarith
qed

lemma contained_in_covers: "contained_in a b \<Longrightarrow> covers a x \<Longrightarrow> covers b x"
  by (auto simp: contained_in_def covers_def)

lemma disjoint_blocks_covers: "disjoint_blocks a b \<Longrightarrow> \<not> (covers a x \<and> covers b x)"
  by (auto simp: disjoint_blocks_def covers_def)

lemma pairwise_disjoint_covers:
  "pairwise_disjoint cs \<Longrightarrow> i < j \<Longrightarrow> j < length cs \<Longrightarrow>
   \<not> (covers (cs ! i) x \<and> covers (cs ! j) x)"
proof (induction cs arbitrary: i j)
  case Nil
  then show ?case by simp
next
  case (Cons c cs)
  from Cons.prems obtain k where k: "j = Suc k" "k < length cs"
    by (cases j) auto
  show ?case
  proof (cases i)
    case 0
    from Cons.prems(1) k have "disjoint_blocks c (cs ! k)"
      by (simp add: list_all_length)
    then show ?thesis
      using 0 k disjoint_blocks_covers [of c "cs ! k" x] by simp
  next
    case (Suc i')
    with Cons.prems k have "i' < k" by simp
    with Cons.IH [of i' k] Cons.prems(1) k Suc show ?thesis
      by simp
  qed
qed

text \<open>A string that begins with the variable begins, after substitution, with the stack name.\<close>

lemma fn_sub_stack_name:
  "fn_sub stack_name (''${AWS::StackName}'' @ rest) = stack_name @ fn_sub stack_name rest"
  by simp

text \<open>
  C5 (as amended). The \<^verbatim>\<open>vpc_mode\<close> template declares a virtual network, three subnets, two
  route tables, a NAT gateway with a default route from the private route table to it, and a
  security group. The \<^verbatim>\<open>direct_mode\<close> template declares a virtual network, two subnets
  and one route table whose default route goes to the internet gateway; it declares no NAT
  gateway, no route to one and no security group.
\<close>

theorem networking_resources:
  "declares_private_network vpc_mode \<and>
   ids_of_type vpc_mode ''AWS::EC2::VPC'' = [''SageMakerVPC''] \<and>
   ids_of_type vpc_mode ''AWS::EC2::Subnet'' =
     [''SageMakerPrivateSubnet1'', ''SageMakerPrivateSubnet2'', ''SageMakerPublicSubnet1''] \<and>
   ids_of_type vpc_mode ''AWS::EC2::RouteTable'' =
     [''SageMakerPrivateRouteTable'', ''SageMakerPublicRouteTable''] \<and>
   ids_of_type vpc_mode ''AWS::EC2::NatGateway'' = [''SageMakerNATGateway''] \<and>
   nat_paths vpc_mode = [(''SageMakerPrivateRouteTable'', ''SageMakerNATGateway'')] \<and>
   ids_of_type vpc_mode ''AWS::EC2::SecurityGroup'' = [''SageMakerSecurityGroup''] \<and>
   ids_of_type direct_mode ''AWS::EC2::VPC'' = [''SageMakerVPC''] \<and>
   ids_of_type direct_mode ''AWS::EC2::Subnet'' =
     [''SageMakerPublicSubnet1'', ''SageMakerPublicSubnet2''] \<and>
   ids_of_type direct_mode ''AWS::EC2::RouteTable'' = [''SageMakerPublicRouteTable''] \<and>
   internet_routes direct_mode =
     [(''SageMakerPublicRouteTable'', ''SageMakerInternetGateway'')] \<and>
   ids_of_type direct_mode ''AWS::EC2::NatGateway'' = [] \<and>
   nat_paths direct_mode = [] \<and>
   ids_of_type direct_mode ''AWS::EC2::SecurityGroup'' = []"
  by code_simp

theorem direct_mode_lacks_nat_and_security_group_counterexample:
  "\<not> declares_private_network direct_mode"
  by code_simp

text \<open>
  C6. In both templates the block of the virtual network is the literal \<^verbatim>\<open>10.0.0.0/16\<close>,
  and the blocks of the subnets are \<^verbatim>\<open>/24\<close> blocks inside it of which no two overlap.
\<close>

theorem subnet_blocks_partition_the_network:
  "cidr_literals vpc_mode ''AWS::EC2::VPC'' = [Some (Str ''10.0.0.0/16'')] \<and>
   cidr_literals vpc_mode ''AWS::EC2::Subnet'' =
     [Some (Str ''10.0.0.0/24''), Some (Str ''10.0.1.0/24''), Some (Str ''10.0.2.0/24'')] \<and>
   subnets_within_vpc vpc_mode \<and>
   cidr_literals direct_mode ''AWS::EC2::VPC'' = [Some (Str ''10.0.0.0/16'')] \<and>
   cidr_literals direct_mode ''AWS::EC2::Subnet'' =
     [Some (Str ''10.0.0.0/24''), Some (Str ''10.0.1.0/24'')] \<and>
   subnets_within_vpc direct_mode"
  by code_simp

text \<open>
  C7. For every stack name, a stack of either template exports the identifier of the virtual
  network and of two subnets under the names \<^verbatim>\<open><stack>-VPC\<close>, \<^verbatim>\<open><stack>-Subnet1\<close> and
  \<^verbatim>\<open><stack>-Subnet2\<close>; a \<^verbatim>\<open>vpc_mode\<close> stack also exports the security group as
  \<^verbatim>\<open><stack>-SecurityGroup\<close>, and the two subnets it exports are its private subnets.
\<close>

theorem stack_exports:
  "exports stack_name vpc_mode =
     [(stack_name @ ''-VPC'', ''SageMakerVPC'', Ref ''SageMakerVPC''),
      (stack_name @ ''-Subnet1'', ''SageMakerSubnet1'', Ref ''SageMakerPrivateSubnet1''),
      (stack_name @ ''-Subnet2'', ''SageMakerSubnet2'', Ref ''SageMakerPrivateSubnet2''),
      (stack_name @ ''-SecurityGroup'', ''SageMakerSecurityGroup'',
       Ref ''SageMakerSecurityGroup'')] \<and>
   exported_types vpc_mode =
     [Some ''AWS::EC2::VPC'', Some ''AWS::EC2::Subnet'', Some ''AWS::EC2::Subnet'',
      Some ''AWS::EC2::SecurityGroup''] \<and>
   exported_subnets vpc_mode = private_subnets vpc_mode \<and>
   private_subnets vpc_mode = [''SageMakerPrivateSubnet1'', ''SageMakerPrivateSubnet2''] \<and>
   exports stack_name direct_mode =
     [(stack_name @ ''-VPC'', ''SageMakerVPC'', Ref ''SageMakerVPC''),
      (stack_name @ ''-Subnet1'', ''SageMakerSubnet1'', Ref ''SageMakerPublicSubnet1''),
      (stack_name @ ''-Subnet2'', ''SageMakerSubnet2'', Ref ''SageMakerPublicSubnet2'')] \<and>
   exported_types direct_mode =
     [Some ''AWS::EC2::VPC'', Some ''AWS::EC2::Subnet'', Some ''AWS::EC2::Subnet'']"
proof -
  have vpc: "exports stack_name vpc_mode =
     [(stack_name @ ''-VPC'', ''SageMakerVPC'', Ref ''SageMakerVPC''),
      (stack_name @ ''-Subnet1'', ''SageMakerSubnet1'', Ref ''SageMakerPrivateSubnet1''),
      (stack_name @ ''-Subnet2'', ''SageMakerSubnet2'', Ref ''SageMakerPrivateSubnet2''),
      (stack_name @ ''-SecurityGroup'', ''SageMakerSecurityGroup'',
       Ref ''SageMakerSecurityGroup'')]"
    by (simp add: exports_def vpc_mode_def export_of_def)
  have direct: "exports stack_name direct_mode =
     [(stack_name @ ''-VPC'', ''SageMakerVPC'', Ref ''SageMakerVPC''),
      (stack_name @ ''-Subnet1'', ''SageMakerSubnet1'', Ref ''SageMakerPublicSubnet1''),
      (stack_name @ ''-Subnet2'', ''SageMakerSubnet2'', Ref ''SageMakerPublicSubnet2'')]"
    by (simp add: exports_def direct_mode_def export_of_def)
  have types: "exported_types vpc_mode =
     [Some ''AWS::EC2::VPC'', Some ''AWS::EC2::Subnet'', Some ''AWS::EC2::Subnet'',
      Some ''AWS::EC2::SecurityGroup'']"
    "exported_types direct_mode =
     [Some ''AWS::EC2::VPC'', Some ''AWS::EC2::Subnet'', Some ''AWS::EC2::Subnet'']"
    by code_simp+
  have priv: "private_subnets vpc_mode = [''SageMakerPrivateSubnet1'', ''SageMakerPrivateSubnet2'']"
    by code_simp
  have subnets: "exported_subnets vpc_mode = [''SageMakerPrivateSubnet1'', ''SageMakerPrivateSubnet2'']"
    by code_simp
  from vpc direct types priv subnets show ?thesis
    by simp
qed

section \<open>The pipeline notebook: parameters, dependencies and approval\<close>

lemmas parameter_defs =
  raw_data_path_param_def train_data_path_param_def val_data_path_param_def
  test_data_path_param_def model_path_param_def processing_instance_type_param_def
  processing_instance_count_param_def train_test_split_ratio_param_def max_depth_param_def
  eta_param_def gamma_param_def min_child_weight_param_def objective_param_def
  num_round_param_def eval_metric_param_def training_instance_type_param_def
  training_instance_count_param_def output_path_param_def deploy_instance_type_param_def
  model_approval_status_param_def

lemma registered_status_of_notebook:
  "registered_status (pipeline env) given =
     (case map_of given ''model_approval_status'' of
        Some v \<Rightarrow> Some v
      | None \<Rightarrow> Some (StrValue ''PendingManualApproval''))"
  by (simp add: registered_status_def pipeline_def register_model_step_def processing_step_def
        training_step_def value_of_def model_approval_status_param_def
      split: option.splits)

text \<open>
  C8. The \<^verbatim>\<open>RegisterModel\<close> step takes its approval status from the parameter
  \<^verbatim>\<open>model_approval_status\<close>, whose default is \<^verbatim>\<open>PendingManualApproval\<close>; the execution the
  notebook starts does not override it, so the package is registered as
  \<^verbatim>\<open>PendingManualApproval\<close>. The notebook calls \<^verbatim>\<open>deploy\<close> once, the call just before it
  is \<^verbatim>\<open>update_model_package\<close> with status \<^verbatim>\<open>Approved\<close>, and the package is
  \<^verbatim>\<open>Approved\<close> when \<^verbatim>\<open>deploy\<close> is called.
\<close>

theorem approval_precedes_deployment:
  "map_of (step_args (register_model_step env)) ''approval_status'' =
     Some (P model_approval_status_param) \<and>
   name model_approval_status_param = ''model_approval_status'' \<and>
   default_value model_approval_status_param = StrValue ''PendingManualApproval'' \<and>
   approval_status (run (take 3 (notebook_calls env))) =
     Some (StrValue ''PendingManualApproval'') \<and>
   filter is_deploy (notebook_calls env) = [deploy 1 ''ml.m5.2xlarge'' (endpoint_name env)] \<and>
   last (takeWhile (\<lambda>c. \<not> is_deploy c) (notebook_calls env)) =
     update_model_package ''Approved'' \<and>
   deployments (run (notebook_calls env)) =
     [(endpoint_name env, Some (StrValue ''Approved''))]"
proof -
  have registered: "approval_status (run (take 3 (notebook_calls env))) =
      Some (StrValue ''PendingManualApproval'')"
    by (simp add: run_def notebook_calls_def initial_def registered_status_of_notebook)
  have deployed: "deployments (run (notebook_calls env)) =
      [(endpoint_name env, Some (StrValue ''Approved''))]"
    by (simp add: run_def notebook_calls_def initial_def registered_status_of_notebook)
  have order: "filter is_deploy (notebook_calls env) =
      [deploy 1 ''ml.m5.2xlarge'' (endpoint_name env)]"
    "last (takeWhile (\<lambda>c. \<not> is_deploy c) (notebook_calls env)) =
      update_model_package ''Approved''"
    by (simp_all add: notebook_calls_def)
  have step: "map_of (step_args (register_model_step env)) ''approval_status'' =
      Some (P model_approval_status_param)"
    by (simp add: register_model_step_def)
  from registered deployed order step show ?thesis
    by (simp add: model_approval_status_param_def)
qed

text \<open>
  C9. The parameters list of the pipeline is the list of the twenty parameters the notebook
  declares, each under its own name.
\<close>

theorem all_declared_parameters_are_passed:
  "parameters (pipeline env) = declared_parameters env \<and>
   length (declared_parameters env) = 20 \<and>
   map name (parameters (pipeline env)) =
     [''raw_data_path'', ''train_data_path'', ''val_data_path'', ''test_data_path'',
      ''model_path'', ''processing_instance_type'', ''processing_instance_count'',
      ''train_test_split_ratio'', ''max_depth'', ''eta'', ''gamma'', ''min_child_weight'',
      ''objective'', ''num_round'', ''eval_metric'', ''training_instance_type'',
      ''training_instance_count'', ''output_path'', ''deploy_instance_type'',
      ''model_approval_status''] \<and>
   distinct (map name (parameters (pipeline env)))"
proof -
  have same: "parameters (pipeline env) = declared_parameters env"
    by (simp add: pipeline_def declared_parameters_def)
  have names: "map name (declared_parameters env) =
     [''raw_data_path'', ''train_data_path'', ''val_data_path'', ''test_data_path'',
      ''model_path'', ''processing_instance_type'', ''processing_instance_count'',
      ''train_test_split_ratio'', ''max_depth'', ''eta'', ''gamma'', ''min_child_weight'',
      ''objective'', ''num_round'', ''eval_metric'', ''training_instance_type'',
      ''training_instance_count'', ''output_path'', ''deploy_instance_type'',
      ''model_approval_status'']"
    by (simp add: declared_parameters_def parameter_defs)
  have count: "length (declared_parameters env) = 20"
    by (simp add: declared_parameters_def)
  have "distinct (map name (declared_parameters env))"
    unfolding names by simp
  with same names count show ?thesis
    by simp
qed

text \<open>
  C10. The \<^verbatim>\<open>train\<close> and \<^verbatim>\<open>validation\<close> inputs of the training step are the S3 URIs of
  the \<^verbatim>\<open>train_data\<close> and \<^verbatim>\<open>val_data\<close> outputs of the processing step, referred to
  through the properties of that step; so the training step depends on the processing step,
  and the processing step on no step.
\<close>

theorem training_inputs_are_processing_outputs:
  "channel_s3_data (training_step env) ''train'' =
     Some (properties (processing_step env)
             [''ProcessingOutputConfig'', ''Outputs'', ''train_data'', ''S3Output'', ''S3Uri'']) \<and>
   channel_s3_data (training_step env) ''validation'' =
     Some (properties (processing_step env)
             [''ProcessingOutputConfig'', ''Outputs'', ''val_data'', ''S3Output'', ''S3Uri'']) \<and>
   resolve_property (steps (pipeline env))
       (properties (processing_step env)
          [''ProcessingOutputConfig'', ''Outputs'', ''train_data'', ''S3Output'', ''S3Uri'']) =
     output_s3_uri (processing_step env) ''train_data'' \<and>
   output_s3_uri (processing_step env) ''train_data'' = Some (P (train_data_path_param env)) \<and>
   resolve_property (steps (pipeline env))
       (properties (processing_step env)
          [''ProcessingOutputConfig'', ''Outputs'', ''val_data'', ''S3Output'', ''S3Uri'']) =
     output_s3_uri (processing_step env) ''val_data'' \<and>
   output_s3_uri (processing_step env) ''val_data'' = Some (P (val_data_path_param env)) \<and>
   depends_on (training_step env) (processing_step env) \<and>
   step_deps (training_step env) = [''Processing''] \<and>
   step_deps (processing_step env) = []"
proof -
  have channels:
    "channel_s3_data (training_step env) ''train'' =
       Some (properties (processing_step env)
               [''ProcessingOutputConfig'', ''Outputs'', ''train_data'', ''S3Output'', ''S3Uri''])"
    "channel_s3_data (training_step env) ''validation'' =
       Some (properties (processing_step env)
               [''ProcessingOutputConfig'', ''Outputs'', ''val_data'', ''S3Output'', ''S3Uri''])"
    by (simp_all add: channel_s3_data_def training_step_def kwarg_def)
  have uris:
    "output_s3_uri (processing_step env) ''train_data'' = Some (P (train_data_path_param env))"
    "output_s3_uri (processing_step env) ''val_data'' = Some (P (val_data_path_param env))"
    by (simp_all add: output_s3_uri_def processing_step_def outputs_def kwarg_def)
  have resolved:
    "resolve_property (steps (pipeline env))
         (properties (processing_step env) [''ProcessingOutputConfig'', ''Outputs'', x, ''S3Output'', ''S3Uri'']) =
       output_s3_uri (processing_step env) x" for x
    by (simp add: resolve_property_def properties_def pipeline_def)
  have deps: "step_deps (training_step env) = [''Processing'']"
    by (simp add: step_deps_def training_step_def estimator_def hyperparameters_def
          properties_def processing_step_def)
  have none: "step_deps (processing_step env) = []"
    by (simp add: step_deps_def processing_step_def sklearn_processor_def inputs_def
          outputs_def)
  have "depends_on (training_step env) (processing_step env)"
    unfolding depends_on_def deps by (simp add: processing_step_def)
  with channels uris resolved deps none show ?thesis
    by simp
qed

end
